theory Spec2Isabelle
  imports Complex_Main "HOL-Library.FSet"
begin

section \<open>Errors and random sources\<close>

text \<open>
  The generators are Python functions that draw from process-wide random sources and
  raise exceptions. An exception is a value of \<open>error\<close>; a call that may raise
  returns \<open>error + result\<close>.
\<close>

datatype error = ValueError | IndexError | KeyError | OverflowError

text \<open>
  A random source is the infinite sequence of raw draws it is going to deliver; drawing
  takes the head and leaves the tail. The program uses four independent sources:
  the global generator of the \<open>random\<close> module (the only one \<open>random.seed\<close> sets),
  \<open>os.urandom\<close> (read by \<open>uuid.uuid4\<close>), the global generator of \<open>numpy.random\<close>
  and the generator owned by the \<open>Faker\<close> instance, which delivers names.
\<close>

type_synonym source = "nat \<Rightarrow> nat"

record env =
  py_random :: source
  os_urandom :: source
  np_random :: source
  faker :: "nat \<Rightarrow> string"

definition tl_src :: "(nat \<Rightarrow> 'a) \<Rightarrow> (nat \<Rightarrow> 'a)" where
  "tl_src s = (\<lambda>n. s (Suc n))"

definition draw :: "env \<Rightarrow> nat \<times> env" where
  "draw e = (py_random e 0, e\<lparr>py_random := tl_src (py_random e)\<rparr>)"

text \<open>
  \<open>feed xs\<close> is the source that delivers the draws \<open>xs\<close> and then zeros; it is used to
  run the model on concrete draws.
\<close>

definition feed :: "nat list \<Rightarrow> source" where
  "feed xs = (\<lambda>n. if n < length xs then xs ! n else 0)"

text \<open>
  The functions of the \<open>random\<close> module, by their contracts: each consumes one raw draw
  and maps it onto the range the library documents, and raises where the library raises.
  \<open>random.random()\<close> is a multiple of \<open>2^-53\<close> in \<open>[0, 1)\<close>.
\<close>

definition random_random :: "env \<Rightarrow> real \<times> env" where
  "random_random e = (case draw e of (r, e') \<Rightarrow> (real (r mod 2 ^ 53) / 2 ^ 53, e'))"

definition randrange :: "int \<Rightarrow> env \<Rightarrow> error + int \<times> env" where
  "randrange n e =
     (if n \<le> 0 then Inl ValueError
      else case draw e of (r, e') \<Rightarrow> Inr (int r mod n, e'))"

definition randint :: "int \<Rightarrow> int \<Rightarrow> env \<Rightarrow> error + int \<times> env" where
  "randint a b e =
     (case randrange (b - a + 1) e of Inl err \<Rightarrow> Inl err | Inr (k, e') \<Rightarrow> Inr (a + k, e'))"

definition choice :: "'a list \<Rightarrow> env \<Rightarrow> error + 'a \<times> env" where
  "choice xs e =
     (if xs = [] then Inl IndexError
      else case draw e of (r, e') \<Rightarrow> Inr (xs ! (r mod length xs), e'))"

section \<open>Floats\<close>

text \<open>
  A Python float is read as the real number it denotes. \<open>double x\<close> is the float nearest
  to the real number \<open>x\<close>, with 53 significant bits and ties going to the even
  significand: a decimal literal \<open>0.7\<close> of the source is \<open>double 0.7\<close>, and the sum or
  product of two floats is \<open>double\<close> of the exact sum or product. The magnitudes the
  program computes with are far from the overflow and the subnormal range, which are not
  modelled. \<open>exponent x\<close> is the integer \<open>e\<close> with \<open>2^e \<le> x < 2^(e+1)\<close>, for positive
  \<open>x\<close>; \<open>int_of_float\<close> is \<open>int()\<close> on a float, which truncates towards zero.
\<close>

fun bit_length :: "nat \<Rightarrow> nat" where
  "bit_length n = (if n = 0 then 0 else Suc (bit_length (n div 2)))"

declare bit_length.simps [simp del]

definition pow2 :: "int \<Rightarrow> real" where
  "pow2 k = (if 0 \<le> k then 2 ^ nat k else 1 / 2 ^ nat (- k))"

definition exponent :: "real \<Rightarrow> int" where
  "exponent x =
     (if 1 \<le> x then int (bit_length (nat \<lfloor>x\<rfloor>)) - 1
      else - int (bit_length (nat (\<lceil>1 / x\<rceil> - 1))))"

definition round_half_even :: "real \<Rightarrow> int" where
  "round_half_even x =
     (let n = \<lfloor>x\<rfloor>; rest = x - of_int n
      in if rest < 1 / 2 then n
         else if rest > 1 / 2 then n + 1
         else if even n then n else n + 1)"

definition double :: "real \<Rightarrow> real" where
  "double x =
     (if x = 0 then 0
      else let ulp = pow2 (exponent \<bar>x\<bar> - 52)
           in of_int (round_half_even (x / ulp)) * ulp)"

definition int_of_float :: "real \<Rightarrow> int" where
  "int_of_float x = (if 0 \<le> x then \<lfloor>x\<rfloor> else \<lceil>x\<rceil>)"

section \<open>utils/dates.py\<close>

text \<open>
  A \<open>datetime\<close> is the number of microseconds since 0001-01-01T00:00:00, a Monday; a
  \<open>timedelta\<close> is a number of microseconds. \<open>timedelta.days\<close> rounds towards minus
  infinity, \<open>weekday()\<close> is 0 on Monday and 6 on Sunday. The last datetime is
  9999-12-31T23:59:59.999999, \<open>datetime_max\<close>; \<open>plus_timedelta\<close> is the sum of a datetime
  and a timedelta, which raises \<open>OverflowError\<close> outside the years 1 to 9999.
  \<open>random_date\<close> and the loop of \<open>random_weekday_date\<close> stay between datetimes they
  are given, so their sums are written without the check.
\<close>

type_synonym datetime = int

definition second :: int where "second = 1000000"
definition day :: int where "day = 86400 * 1000000"

definition datetime_max :: datetime where
  "datetime_max = 3652059 * day - 1"

definition plus_timedelta :: "datetime \<Rightarrow> int \<Rightarrow> error + datetime" where
  "plus_timedelta dt delta =
     (if 0 \<le> dt + delta \<and> dt + delta \<le> datetime_max then Inr (dt + delta)
      else Inl OverflowError)"

definition days :: "int \<Rightarrow> int" where
  "days delta = delta div day"

definition weekday :: "datetime \<Rightarrow> int" where
  "weekday dt = (dt div day) mod 7"

definition random_date :: "datetime \<Rightarrow> datetime \<Rightarrow> env \<Rightarrow> error + datetime \<times> env" where
  "random_date start_date end_date e =
     (let time_between = end_date - start_date;
          days_between = days time_between
      in case randrange days_between e of
           Inl err \<Rightarrow> Inl err
         | Inr (random_days, e') \<Rightarrow> Inr (start_date + random_days * day, e'))"

text \<open>
  The \<open>while\<close> loop of \<open>random_weekday_date\<close>. Nothing in the source bounds the
  number of its iterations, so the loop is a partial function: \<open>None\<close> is a run that
  never leaves the loop.
\<close>

partial_function (option) weekday_loop :: "datetime \<Rightarrow> datetime \<Rightarrow> datetime option" where
  "weekday_loop date end_date =
     (if weekday date \<ge> 5 then
        (if date < end_date - 2 * day then weekday_loop (date + day) end_date
         else weekday_loop (date - day) end_date)
      else Some date)"

definition random_weekday_date ::
  "datetime \<Rightarrow> datetime \<Rightarrow> env \<Rightarrow> (error + datetime \<times> env) option" where
  "random_weekday_date start_date end_date e =
     (case random_date start_date end_date e of
        Inl err \<Rightarrow> Some (Inl err)
      | Inr (date, e') \<Rightarrow>
          (case weekday_loop date end_date of
             None \<Rightarrow> None
           | Some date' \<Rightarrow> Some (Inr (date', e'))))"

text \<open>
  Sequencing of calls that may raise: the first exception ends the computation.
  \<open>and_then\<close> sequences calls that draw, \<open>returning\<close> (below) calls that do not.
\<close>

definition and_then ::
  "(error + 'a \<times> env) \<Rightarrow> ('a \<Rightarrow> env \<Rightarrow> error + 'b \<times> env) \<Rightarrow> error + 'b \<times> env" where
  "and_then m f = (case m of Inl err \<Rightarrow> Inl err | Inr (x, e) \<Rightarrow> f x e)"

text \<open>The \<open>while\<close> loop of \<open>generate_due_date\<close>, which only ever moves backwards.\<close>

function due_date_loop :: "datetime \<Rightarrow> error + datetime" where
  "due_date_loop due_date =
     (if weekday due_date \<ge> 5 then
        (case plus_timedelta due_date (- day) of
           Inl err \<Rightarrow> Inl err
         | Inr earlier \<Rightarrow> due_date_loop earlier)
      else Inr due_date)"
  by pat_completeness auto
termination
proof (relation "measure (\<lambda>d. nat (weekday d))")
  show "wf (measure (\<lambda>d. nat (weekday d)))" by simp
next
  fix due_date earlier :: datetime
  assume w: "5 \<le> weekday due_date"
  assume "plus_timedelta due_date (- day) = Inr earlier"
  then have earlier: "earlier = due_date - day"
    by (simp add: plus_timedelta_def split: if_splits)
  have "due_date - day = due_date + (- 1) * day" by simp
  then have "(due_date - day) div day = due_date div day + (- 1)"
    using div_mult_self1 [of day due_date "- 1"] by (simp add: day_def del: mult_minus_left)
  then have "weekday (due_date - day) = (weekday due_date - 1) mod 7"
    by (simp add: weekday_def mod_diff_left_eq)
  moreover have "weekday due_date < 7" by (simp add: weekday_def)
  ultimately have "weekday (due_date - day) = weekday due_date - 1"
    using w by simp
  then show "(earlier, due_date) \<in> measure (\<lambda>d. nat (weekday d))"
    using w earlier by simp
qed

declare due_date_loop.simps [simp del]

text \<open>
  \<open>generate_due_date\<close>: the part of the body after \<open>days_ahead\<close> has been drawn is
  \<open>due_date_from\<close>.
\<close>

definition returning :: "error + 'a \<Rightarrow> ('a \<Rightarrow> error + 'b) \<Rightarrow> error + 'b" where
  "returning m f = (case m of Inl err \<Rightarrow> Inl err | Inr x \<Rightarrow> f x)"

definition due_date_from ::
  "datetime \<Rightarrow> datetime \<Rightarrow> int \<Rightarrow> env \<Rightarrow> error + datetime option \<times> env" where
  "due_date_from created_at end_date days_ahead e =
     returning (plus_timedelta created_at (days_ahead * day))
       (\<lambda>due_date.
          returning
            (if due_date > end_date then Inr end_date
             else returning (plus_timedelta created_at (- (30 * day)))
                    (\<lambda>month_before.
                       if due_date < month_before then plus_timedelta created_at day
                       else Inr due_date))
            (\<lambda>due_date.
               case random_random e of
                 (r, e') \<Rightarrow>
                   if r < double 0.85 then
                     returning (due_date_loop due_date) (\<lambda>due_date. Inr (Some due_date, e'))
                   else Inr (Some due_date, e')))"

definition generate_due_date ::
  "datetime \<Rightarrow> datetime \<Rightarrow> string \<Rightarrow> env \<Rightarrow> error + datetime option \<times> env" where
  "generate_due_date created_at end_date distribution e =
     (if distribution = ''realistic'' then
        (case random_random e of
           (rand, e1) \<Rightarrow>
             if rand < double 0.10 then Inr (None, e1)
             else and_then
                    (if rand < double 0.35 then randint 1 7 e1
                     else if rand < double 0.75 then randint 8 30 e1
                     else if rand < double 0.95 then randint 31 90 e1
                     else randint (- 14) (- 1) e1)
                    (due_date_from created_at end_date))
      else and_then (randint 1 90 e) (due_date_from created_at end_date))"



text \<open>
  \<open>generate_creation_times\<close>. \<open>timedelta.total_seconds()\<close> is the float quotient of the
  microseconds by \<open>10^6\<close>, and \<open>total_seconds_int\<close> is \<open>int\<close> of it. \<open>creation_time\<close>
  is the body of the \<open>for\<close> loop, \<open>creation_times_loop\<close> the loop, which appends in
  iteration order.
\<close>

definition total_seconds :: "int \<Rightarrow> real" where
  "total_seconds delta = double (of_int delta / 1000000)"

definition total_seconds_int :: "int \<Rightarrow> int" where
  "total_seconds_int delta = int_of_float (total_seconds delta)"

definition creation_time :: "datetime \<Rightarrow> datetime \<Rightarrow> env \<Rightarrow> error + datetime \<times> env" where
  "creation_time start_date end_date e =
     and_then (randint 0 (total_seconds_int (end_date - start_date)) e)
       (\<lambda>random_seconds e1.
          returning (plus_timedelta start_date (random_seconds * second))
            (\<lambda>dt.
               if weekday dt < 3 then
                 (case random_random e1 of (r, e2) \<Rightarrow> Inr (dt, e2))
               else if weekday dt \<ge> 5 then
                 (case random_random e1 of
                    (r, e2) \<Rightarrow>
                      if r > double 0.2 then
                        (let days_to_add = (7 - weekday dt) mod 7;
                             days_to_add = (if days_to_add = 0 then 1 else days_to_add)
                         in returning (plus_timedelta dt (days_to_add * day))
                              (\<lambda>dt.
                                 returning
                                   (if dt > end_date then plus_timedelta dt (- (7 * day)) else Inr dt)
                                   (\<lambda>dt. Inr (dt, e2))))
                      else Inr (dt, e2))
               else Inr (dt, e1)))"

fun creation_times_loop ::
  "nat \<Rightarrow> datetime \<Rightarrow> datetime \<Rightarrow> env \<Rightarrow> error + datetime list \<times> env" where
  "creation_times_loop 0 start_date end_date e = Inr ([], e)"
| "creation_times_loop (Suc n) start_date end_date e =
     and_then (creation_time start_date end_date e)
       (\<lambda>dt e1. and_then (creation_times_loop n start_date end_date e1)
          (\<lambda>times e2. Inr (dt # times, e2)))"

definition generate_creation_times ::
  "datetime \<Rightarrow> datetime \<Rightarrow> int \<Rightarrow> env \<Rightarrow> error + datetime list \<times> env" where
  "generate_creation_times start_date end_date count e =
     and_then (creation_times_loop (nat count) start_date end_date e)
       (\<lambda>times e'. Inr (sort times, e'))"

section \<open>Concrete inputs\<close>

text \<open>
  \<open>midnight n\<close> is 00:00:00 on the day \<open>n\<close> days after 0001-01-01 (2024-01-01 is day
  738885, a Monday). \<open>run_env\<close> builds the four sources from the draws they deliver.
\<close>

definition midnight :: "int \<Rightarrow> datetime" where
  "midnight n = n * day"

definition run_env :: "nat list \<Rightarrow> nat list \<Rightarrow> nat list \<Rightarrow> string list \<Rightarrow> env" where
  "run_env rs us ns names =
     \<lparr>py_random = feed rs, os_urandom = feed us, np_random = feed ns,
      faker = (\<lambda>n. if n < length names then names ! n else [])\<rparr>"

text \<open>\<open>value_of\<close> forgets the sources left over after a call.\<close>

definition value_of :: "error + 'a \<times> env \<Rightarrow> error + 'a" where
  "value_of m = (case m of Inl err \<Rightarrow> Inl err | Inr (x, e) \<Rightarrow> Inr x)"

section \<open>Strings\<close>

text \<open>
  Strings are ASCII texts. \<open>str_of_nat\<close> is Python's \<open>str\<close> on a non-negative integer,
  \<open>lower\<close> is \<open>str.lower\<close> and \<open>split\<close> is \<open>str.split()\<close> with no argument: it cuts at
  runs of whitespace and yields no empty token.
\<close>

definition digit_char :: "nat \<Rightarrow> char" where
  "digit_char d = ''0123456789'' ! d"

fun str_of_nat :: "nat \<Rightarrow> string" where
  "str_of_nat n = (if n < 10 then [digit_char n] else str_of_nat (n div 10) @ [digit_char (n mod 10)])"

declare str_of_nat.simps [simp del]

definition lower_char :: "char \<Rightarrow> char" where
  "lower_char c =
     (case map_of (zip ''ABCDEFGHIJKLMNOPQRSTUVWXYZ'' ''abcdefghijklmnopqrstuvwxyz'') c of
        Some l \<Rightarrow> l
      | None \<Rightarrow> c)"

definition lower :: "string \<Rightarrow> string" where
  "lower s = map lower_char s"

definition isspace :: "char \<Rightarrow> bool" where
  "isspace c =
     (c \<in> set [CHR 0x09, CHR 0x0A, CHR 0x0B, CHR 0x0C, CHR 0x0D, CHR 0x1C, CHR 0x1D, CHR 0x1E,
               CHR 0x1F, CHR '' ''])"

fun split_from :: "string \<Rightarrow> string \<Rightarrow> string list" where
  "split_from [] cur = (if cur = [] then [] else [cur])"
| "split_from (c # cs) cur =
     (if isspace c then (if cur = [] then split_from cs [] else cur # split_from cs [])
      else split_from cs (cur @ [c]))"

definition split :: "string \<Rightarrow> string list" where
  "split s = split_from s []"

section \<open>utils/helpers.py\<close>

text \<open>
  \<open>uuid.uuid4()\<close> reads 16 bytes from \<open>os.urandom\<close>, takes them as a 128-bit number and
  overwrites the variant and version bits; \<open>str\<close> of it without the dashes is the number
  in 32 lower-case hexadecimal digits. The random module's generator is not involved.
\<close>

definition urandom16 :: "env \<Rightarrow> nat \<times> env" where
  "urandom16 e = (os_urandom e 0 mod 2 ^ 128, e\<lparr>os_urandom := tl_src (os_urandom e)\<rparr>)"

definition uuid4_int :: "nat \<Rightarrow> nat" where
  "uuid4_int n =
     (let variant_cleared = n - ((n div 2 ^ 62) mod 4) * 2 ^ 62;
          variant_set = variant_cleared + 2 * 2 ^ 62;
          version_cleared = variant_set - ((variant_set div 2 ^ 76) mod 16) * 2 ^ 76
      in version_cleared + 4 * 2 ^ 76)"

definition hex_char :: "nat \<Rightarrow> char" where
  "hex_char d = ''0123456789abcdef'' ! d"

fun hex_digits :: "nat \<Rightarrow> nat \<Rightarrow> string" where
  "hex_digits 0 n = []"
| "hex_digits (Suc k) n = hex_digits k (n div 16) @ [hex_char (n mod 16)]"

definition generate_id :: "env \<Rightarrow> string \<times> env" where
  "generate_id e = (case urandom16 e of (n, e') \<Rightarrow> (hex_digits 32 (uuid4_int n), e'))"

text \<open>
  \<open>random.choices(population, weights=weights, k=1)[0]\<close> with float weights: the library
  accumulates the weights with float additions, raises when their number differs from the
  population's or their total is not positive, and bisects the cumulative weights at the
  float product \<open>random() * total\<close>, between the indices 0 and \<open>n - 1\<close>. \<open>bisect\<close> is
  \<open>bisect.bisect_right\<close>, a binary search.
\<close>

fun accumulate_from :: "real \<Rightarrow> real list \<Rightarrow> real list" where
  "accumulate_from acc [] = []"
| "accumulate_from acc (w # ws) = double (acc + w) # accumulate_from (double (acc + w)) ws"

fun accumulate :: "real list \<Rightarrow> real list" where
  "accumulate [] = []"
| "accumulate (w # ws) = w # accumulate_from w ws"

function bisect :: "real list \<Rightarrow> real \<Rightarrow> nat \<Rightarrow> nat \<Rightarrow> nat" where
  "bisect a x lo hi =
     (if lo < hi then
        (if x < a ! ((lo + hi) div 2) then bisect a x lo ((lo + hi) div 2)
         else bisect a x ((lo + hi) div 2 + 1) hi)
      else lo)"
  by pat_completeness auto
termination
  by (relation "measure (\<lambda>(a, x, lo, hi). hi - lo)") auto

declare bisect.simps [simp del]

definition choices :: "'a list \<Rightarrow> real list \<Rightarrow> env \<Rightarrow> error + 'a \<times> env" where
  "choices population weights e =
     (let n = length population; cum_weights = accumulate weights in
      if length cum_weights \<noteq> n then Inl ValueError
      else if cum_weights = [] then Inl IndexError
      else let total = last cum_weights in
        if total \<le> 0 then Inl ValueError
        else case random_random e of
          (r, e') \<Rightarrow> Inr (population ! bisect cum_weights (double (r * total)) 0 (n - 1), e'))"

section \<open>generators/users.py\<close>

text \<open>
  Rows are the dictionaries the generators build, one record field per key. Timestamps
  stay datetimes: \<open>isoformat\<close> followed by \<open>fromisoformat\<close> gives the datetime back.
\<close>

record user =
  user_id :: string
  user_organization_id :: string
  user_email :: string
  user_name :: string
  user_role :: string
  user_department :: string
  user_created_at :: datetime

definition domain :: string where
  "domain = ''acme.com''"

definition departments :: "string list" where
  "departments = [''Engineering'', ''Marketing'', ''Operations'', ''Sales'', ''Product'',
     ''Design'', ''Customer Success'']"

definition department_weights :: "real list" where
  "department_weights =
     [double 0.40, double 0.25, double 0.20, double 0.15, double 0.10, double 0.08, double 0.07]"

definition roles :: "string \<Rightarrow> string list" where
  "roles dept =
     (if dept = ''Engineering'' then
        [''Software Engineer'', ''Senior Engineer'', ''Staff Engineer'', ''Engineering Manager'', ''Tech Lead'']
      else if dept = ''Marketing'' then
        [''Marketing Manager'', ''Content Manager'', ''Growth Marketing'', ''Brand Manager'', ''Marketing Analyst'']
      else if dept = ''Operations'' then
        [''Operations Manager'', ''Business Analyst'', ''Operations Coordinator'', ''VP Operations'']
      else if dept = ''Sales'' then
        [''Sales Representative'', ''Account Executive'', ''Sales Manager'', ''VP Sales'']
      else if dept = ''Product'' then
        [''Product Manager'', ''Senior Product Manager'', ''Product Lead'']
      else if dept = ''Design'' then
        [''Product Designer'', ''UX Designer'', ''Design Lead'']
      else if dept = ''Customer Success'' then
        [''Customer Success Manager'', ''Support Engineer'', ''CS Lead'']
      else [''Team Member''])"

definition faker_name :: "env \<Rightarrow> string \<times> env" where
  "faker_name e = (faker e 0, e\<lparr>faker := tl_src (faker e)\<rparr>)"

definition base_email :: "string \<Rightarrow> string \<Rightarrow> string" where
  "base_email first_name last_name = first_name @ ''.'' @ last_name @ ''@'' @ domain"

definition suffixed_email :: "string \<Rightarrow> string \<Rightarrow> nat \<Rightarrow> string" where
  "suffixed_email first_name last_name suffix =
     first_name @ ''.'' @ last_name @ str_of_nat suffix @ ''@'' @ domain"

text \<open>
  The \<open>while email in used_emails\<close> loop. \<open>used_emails\<close> is a Python set, hence finite,
  and the candidates for different suffixes differ, so the loop ends: the candidates
  still ahead that are in use become fewer with every round.
\<close>

function email_loop :: "string \<Rightarrow> string \<Rightarrow> string fset \<Rightarrow> nat \<Rightarrow> string \<Rightarrow> string" where
  "email_loop first_name last_name used_emails suffix email =
     (if email |\<in>| used_emails then
        email_loop first_name last_name used_emails (suffix + 1)
          (suffixed_email first_name last_name (suffix + 1))
      else email)"
  by pat_completeness auto
termination
proof (relation "measure (\<lambda>(f, l, used, suffix, email).
    card {k. suffix < k \<and> suffixed_email f l k |\<in>| used} + (if email |\<in>| used then 1 else 0))")
  show "wf (measure (\<lambda>(f, l, used, suffix, email).
    card {k. suffix < k \<and> suffixed_email f l k |\<in>| used} + (if email |\<in>| used then 1 else 0)))"
    by simp
next
  fix first_name last_name :: string and used_emails :: "string fset" and suffix :: nat and email :: string
  assume inuse: "email |\<in>| used_emails"
  have dc: "a = b" if "a < 10" "b < 10" "digit_char a = digit_char b" for a b :: nat
  proof -
    have "distinct ''0123456789''" by simp
    moreover have "a < length ''0123456789''" "b < length ''0123456789''"
      using that(1,2) by simp_all
    ultimately show "a = b"
      using that(3) unfolding digit_char_def by (simp only: nth_eq_iff_index_eq)
  qed
  have ne: "str_of_nat k \<noteq> []" for k
    by (subst str_of_nat.simps) simp
  have small: "str_of_nat k = [digit_char k]" if "k < 10" for k
    using that by (subst str_of_nat.simps) simp
  have big: "str_of_nat k = str_of_nat (k div 10) @ [digit_char (k mod 10)]" if "\<not> k < 10" for k
    using that by (subst str_of_nat.simps) simp
  have str_of_nat_inj: "str_of_nat m = str_of_nat n \<Longrightarrow> m = n" for m n
  proof (induction m arbitrary: n rule: str_of_nat.induct)
    case (1 m)
    show ?case
    proof (cases "m < 10")
      case True
      note m = small [OF True]
      show ?thesis
      proof (cases "n < 10")
        case n: True
        from "1.prems" have "digit_char m = digit_char n"
          unfolding m small [OF n] by (rule list.inject [THEN iffD1, THEN conjunct1])
        with True n show ?thesis by (rule dc)
      next
        case n: False
        from "1.prems" have "length [digit_char m] = length (str_of_nat (n div 10) @ [digit_char (n mod 10)])"
          unfolding m big [OF n] by (rule arg_cong)
        then have "str_of_nat (n div 10) = []" by simp
        with ne show ?thesis by blast
      qed
    next
      case False
      note m = big [OF False]
      show ?thesis
      proof (cases "n < 10")
        case n: True
        from "1.prems" have "length (str_of_nat (m div 10) @ [digit_char (m mod 10)]) = length [digit_char n]"
          unfolding m small [OF n] by (rule arg_cong)
        then have "str_of_nat (m div 10) = []" by simp
        with ne show ?thesis by blast
      next
        case n: False
        from "1.prems" have eq: "str_of_nat (m div 10) = str_of_nat (n div 10)"
          and d: "digit_char (m mod 10) = digit_char (n mod 10)"
          unfolding m big [OF n] by (simp_all only: append1_eq_conv)
        from "1.IH" [OF False eq] have "m div 10 = n div 10" .
        moreover have "m mod 10 = n mod 10"
          by (rule dc [OF _ _ d]) simp_all
        ultimately show ?thesis by (metis div_mult_mod_eq)
      qed
    qed
  qed
  have suffixed_email_inj: "m = n" if "suffixed_email f l m = suffixed_email f l n" for f l m n
    using that unfolding suffixed_email_def
    by (simp only: same_append_eq append_same_eq) (rule str_of_nat_inj)
  have inj: "inj (suffixed_email first_name last_name)"
    by (rule injI) (rule suffixed_email_inj)
  have gen: "{k. s < k \<and> P k} =
      (if P (Suc s) then insert (Suc s) {k. Suc s < k \<and> P k} else {k. Suc s < k \<and> P k})"
    for P :: "nat \<Rightarrow> bool" and s
    by (auto intro: Suc_lessI)
  have count: "card {k. s < k \<and> P k} = card {k. Suc s < k \<and> P k} + (if P (Suc s) then 1 else 0)"
    if "finite {k. s < k \<and> P k}" for P :: "nat \<Rightarrow> bool" and s
  proof -
    have "{k. Suc s < k \<and> P k} \<subseteq> {k. s < k \<and> P k}" by auto
    then have "finite {k. Suc s < k \<and> P k}" using that by (rule finite_subset)
    then show ?thesis by (subst gen) simp
  qed
  define P where "P k \<longleftrightarrow> suffixed_email first_name last_name k |\<in>| used_emails" for k
  have "finite (suffixed_email first_name last_name -` fset used_emails)"
    using inj by (rule finite_vimageI [rotated]) (rule finite_fset)
  moreover have "{k. suffix < k \<and> P k} \<subseteq> suffixed_email first_name last_name -` fset used_emails"
    unfolding P_def by (rule subsetI) (simp only: mem_Collect_eq vimage_eq)
  ultimately have "finite {k. suffix < k \<and> P k}" by (rule rev_finite_subset)
  then have "card {k. suffix < k \<and> P k} = card {k. Suc suffix < k \<and> P k} + (if P (Suc suffix) then 1 else 0)"
    by (rule count)
  then have "card {k. Suc suffix < k \<and> P k} + (if P (Suc suffix) then 1 else 0)
      < card {k. suffix < k \<and> P k} + 1"
    by simp
  then show "((first_name, last_name, used_emails, suffix + 1,
        suffixed_email first_name last_name (suffix + 1)),
      (first_name, last_name, used_emails, suffix, email))
    \<in> measure (\<lambda>(f, l, used, suffix, email).
        card {k. suffix < k \<and> suffixed_email f l k |\<in>| used} + (if email |\<in>| used then 1 else 0))"
    using inuse unfolding P_def by (simp only: in_measure prod.case if_True Suc_eq_plus1)
qed

declare email_loop.simps [simp del]

text \<open>
  The body of the second \<open>for\<close> loop of \<open>generate_users\<close> is \<open>make_user\<close>; it returns the
  row and the address it has added to \<open>used_emails\<close>. \<open>name.split()[0]\<close> raises IndexError
  on a name with no token.
\<close>

definition make_user ::
  "string \<Rightarrow> datetime \<Rightarrow> string fset \<Rightarrow> env \<Rightarrow> error + (user \<times> string fset) \<times> env" where
  "make_user org_id created_at used_emails e =
     (case faker_name e of
        (name, e1) \<Rightarrow>
          and_then (choices departments (take (length departments) department_weights) e1)
            (\<lambda>dept e2.
               and_then (choice (roles dept) e2)
                 (\<lambda>role e3.
                    case split name of
                      [] \<Rightarrow> Inl IndexError
                    | first # others \<Rightarrow>
                        let first_name = lower first;
                            last_name = (if length (split name) > 1 then lower (last (split name)) else []);
                            email = email_loop first_name last_name used_emails 1
                                      (base_email first_name last_name)
                        in case generate_id e3 of
                             (uid, e4) \<Rightarrow>
                               Inr ((\<lparr>user_id = uid, user_organization_id = org_id, user_email = email,
                                      user_name = name, user_role = role, user_department = dept,
                                      user_created_at = created_at\<rparr>,
                                     finsert email used_emails), e4))))"

fun users_loop ::
  "string \<Rightarrow> datetime list \<Rightarrow> string fset \<Rightarrow> env \<Rightarrow> error + user list \<times> env" where
  "users_loop org_id [] used_emails e = Inr ([], e)"
| "users_loop org_id (created_at # creation_times) used_emails e =
     and_then (make_user org_id created_at used_emails e)
       (\<lambda>(u, used_emails') e1.
          and_then (users_loop org_id creation_times used_emails' e1)
            (\<lambda>users e2. Inr (u # users, e2)))"

fun random_dates :: "nat \<Rightarrow> datetime \<Rightarrow> datetime \<Rightarrow> env \<Rightarrow> error + datetime list \<times> env" where
  "random_dates 0 start_date end_date e = Inr ([], e)"
| "random_dates (Suc n) start_date end_date e =
     and_then (random_date start_date end_date e)
       (\<lambda>d e1. and_then (random_dates n start_date end_date e1)
          (\<lambda>ds e2. Inr (d # ds, e2)))"

definition generate_users ::
  "int \<Rightarrow> string \<Rightarrow> datetime \<Rightarrow> datetime \<Rightarrow> env \<Rightarrow> error + user list \<times> env" where
  "generate_users count org_id start_date end_date e =
     and_then (random_dates (nat count) start_date end_date e)
       (\<lambda>creation_times e1. users_loop org_id (sort creation_times) {||} e1)"

section \<open>Properties of the date utilities\<close>

lemma day_pos: "0 < day"
  by (simp add: day_def)

lemma randrange_returns: "(\<exists>v. randrange n e = Inr v) \<longleftrightarrow> 0 < n"
  by (auto simp: randrange_def split: prod.splits)

lemma randrange_range:
  assumes "randrange n e = Inr (k, e')"
  shows "0 \<le> k \<and> k < n"
  using assms by (auto simp: randrange_def split: if_splits prod.splits)

lemma random_date_returns:
  "(\<exists>v. random_date s t e = Inr v) \<longleftrightarrow> day \<le> t - s"
proof -
  have "(\<exists>v. random_date s t e = Inr v) \<longleftrightarrow> (\<exists>v. randrange (days (t - s)) e = Inr v)"
    by (auto simp: random_date_def Let_def split: sum.splits)
  also have "\<dots> \<longleftrightarrow> 0 < (t - s) div day"
    unfolding days_def by (rule randrange_returns)
  also have "\<dots> \<longleftrightarrow> day \<le> t - s"
    using day_pos by (simp add: pos_imp_zdiv_pos_iff)
  finally show ?thesis .
qed

lemma random_date_value:
  assumes "random_date s t e = Inr (d, e')"
  shows "\<exists>k. 0 \<le> k \<and> k < days (t - s) \<and> d = s + k * day \<and> d < t"
proof -
  from assms obtain k where k: "randrange (days (t - s)) e = Inr (k, e')" and d: "d = s + k * day"
    by (auto simp: random_date_def Let_def split: sum.splits)
  from k have r: "0 \<le> k" "k < days (t - s)"
    using randrange_range by blast+
  then have "k + 1 \<le> (t - s) div day"
    by (simp add: days_def)
  then have "(k + 1) * day \<le> ((t - s) div day) * day"
    using day_pos by (simp add: mult_right_mono)
  also have "\<dots> \<le> t - s"
    using day_pos by (metis div_mult_mod_eq pos_mod_sign le_add_same_cancel1)
  finally have "d < t"
    using d day_pos by (simp add: algebra_simps)
  with r d show ?thesis by blast
qed

lemma random_date_error: "random_date s t e = Inl err \<Longrightarrow> err = ValueError"
  by (auto simp: random_date_def randrange_def Let_def split: if_splits sum.splits prod.splits)

text \<open>
  Claim C10. \<open>random_date\<close> returns a value exactly when the end is at least one full
  day after the start; for a start before the end with less than one day between them it
  raises \<open>ValueError\<close>; a returned date is the start plus a whole number of days and lies
  strictly before the end.
\<close>

theorem random_date_contract:
  "((\<exists>v. random_date s t e = Inr v) \<longleftrightarrow> day \<le> t - s) \<and>
   (s < t \<and> t - s < day \<longrightarrow> random_date s t e = Inl ValueError) \<and>
   (\<forall>d e'. random_date s t e = Inr (d, e') \<longrightarrow> (\<exists>k\<ge>0. d = s + k * day) \<and> d < t)"
proof (intro conjI allI impI)
  show "(\<exists>v. random_date s t e = Inr v) \<longleftrightarrow> day \<le> t - s"
    by (rule random_date_returns)
next
  assume a: "s < t \<and> t - s < day"
  then have "\<not> (\<exists>v. random_date s t e = Inr v)"
    unfolding random_date_returns by simp
  then obtain err where "random_date s t e = Inl err"
    by (cases "random_date s t e") auto
  then show "random_date s t e = Inl ValueError"
    using random_date_error by blast
next
  fix d e' assume "random_date s t e = Inr (d, e')"
  from random_date_value [OF this] show "\<exists>k\<ge>0. d = s + k * day" by blast
next
  fix d e' assume "random_date s t e = Inr (d, e')"
  from random_date_value [OF this] show "d < t" by blast
qed

theorem random_date_contract_witness:
  "day \<le> midnight 738916 - midnight 738885 \<and>
   (\<exists>e'. random_date (midnight 738885) (midnight 738916) (run_env [5] [] [] []) = Inr (midnight 738890, e')) \<and>
   midnight 738890 < midnight 738916 \<and>
   midnight 738885 < midnight 738885 + 3600 * second \<and>
   random_date (midnight 738885) (midnight 738885 + 3600 * second) (run_env [5] [] [] []) = Inl ValueError"
proof -
  have r: "\<exists>e'. random_date (midnight 738885) (midnight 738916) (run_env [5] [] [] []) = Inr (midnight 738890, e')"
    by (simp add: random_date_def randrange_def draw_def run_env_def feed_def midnight_def days_def day_def Let_def)
  have h: "midnight 738885 < midnight 738885 + 3600 * second \<and> midnight 738885 + 3600 * second - midnight 738885 < day"
    by (simp add: midnight_def day_def second_def)
  from r random_date_contract [of "midnight 738885" "midnight 738916" "run_env [5] [] [] []"]
  have "day \<le> midnight 738916 - midnight 738885 \<and> midnight 738890 < midnight 738916" by blast
  moreover from h random_date_contract [of "midnight 738885" "midnight 738885 + 3600 * second" "run_env [5] [] [] []"]
  have "random_date (midnight 738885) (midnight 738885 + 3600 * second) (run_env [5] [] [] []) = Inl ValueError" by blast
  ultimately show ?thesis using r h by blast
qed

lemma bit_length_numeral:
  "bit_length 0 = 0"
  "bit_length (Suc 0) = 1"
  "bit_length 1 = 1"
  "bit_length (numeral (Num.Bit0 n)) = Suc (bit_length (numeral n))"
  "bit_length (numeral (Num.Bit1 n)) = Suc (bit_length (numeral n))"
  by (subst bit_length.simps, simp)+

lemmas double_simps = double_def exponent_def pow2_def round_half_even_def int_of_float_def
  bit_length_numeral

lemmas run_simps = run_env_def feed_def draw_def tl_src_def random_random_def randrange_def randint_def
  and_then_def returning_def plus_timedelta_def datetime_max_def
  midnight_def day_def second_def days_def weekday_def value_of_def Let_def






text \<open>
  Claim C5 fails on the code. Run 2024-01-01 to 2024-07-01, project created on Saturday
  2024-06-29: the draw Sunday 2024-06-30 12:00 is shifted to Monday 2024-07-01 12:00,
  which is after the run end, and is then moved back seven days to Monday 2024-06-24
  12:00, before the lower bound \<open>max(project.created_at, run.start)\<close>.
\<close>

theorem creation_times_before_project:
  "value_of (generate_creation_times (max (midnight 739065) (midnight 738885)) (midnight 739067) 1
       (run_env [129600, 2 ^ 52] [] [] []))
     = Inr [midnight 739060 + 43200 * second] \<and>
   midnight 739060 + 43200 * second < max (midnight 739065) (midnight 738885)"
  by (simp add: generate_creation_times_def creation_time_def total_seconds_int_def total_seconds_def
      double_simps run_simps)

text \<open>
  With a run end on Tuesday 2024-07-02, the loop of \<open>random_weekday_date\<close> moves Saturday
  2024-06-29 forward to Sunday and Sunday back to Saturday, forever.
\<close>

lemma weekday_loop_cycle:
  assumes "weekday_loop d t = Some r"
  shows "\<not> (t = midnight 739068 \<and> (d = midnight 739065 \<or> d = midnight 739066))"
proof (rule weekday_loop.raw_induct
    [where P = "\<lambda>d t r. \<not> (t = midnight 739068 \<and> (d = midnight 739065 \<or> d = midnight 739066))"])
  show "weekday_loop d t = Some r" by (rule assms)
next
  fix loop :: "datetime \<Rightarrow> datetime \<Rightarrow> datetime option" and date end_date y
  assume IH: "\<And>a b y. loop a b = Some y \<Longrightarrow>
      \<not> (b = midnight 739068 \<and> (a = midnight 739065 \<or> a = midnight 739066))"
  assume step: "(if 5 \<le> weekday date
      then if date < end_date - 2 * day then loop (date + day) end_date
           else loop (date - day) end_date
      else Some date) = Some y"
  show "\<not> (end_date = midnight 739068 \<and> (date = midnight 739065 \<or> date = midnight 739066))"
  proof
    assume a: "end_date = midnight 739068 \<and> (date = midnight 739065 \<or> date = midnight 739066)"
    then consider "date = midnight 739065" | "date = midnight 739066" by blast
    then show False
    proof cases
      case 1
      with a step have "loop (midnight 739066) (midnight 739068) = Some y"
        by (simp add: weekday_def midnight_def day_def)
      from IH [OF this] show False by simp
    next
      case 2
      with a step have "loop (midnight 739065) (midnight 739068) = Some y"
        by (simp add: weekday_def midnight_def day_def)
      from IH [OF this] show False by simp
    qed
  qed
qed

text \<open>
  Claim C7 fails on the code: for the start Saturday 2024-06-29 and the end Tuesday
  2024-07-02 (start before end, three days apart) and the draw 0, \<open>random_weekday_date\<close>
  does not terminate.
\<close>

theorem random_weekday_date_diverges:
  "midnight 739065 < midnight 739068 \<and>
   random_weekday_date (midnight 739065) (midnight 739068) (run_env [0] [] [] []) = None"
proof -
  have "weekday_loop (midnight 739065) (midnight 739068) = None"
    using weekday_loop_cycle [of "midnight 739065" "midnight 739068"]
    by (cases "weekday_loop (midnight 739065) (midnight 739068)") auto
  moreover have "\<exists>e'. random_date (midnight 739065) (midnight 739068) (run_env [0] [] [] [])
                   = Inr (midnight 739065, e')"
    by (simp add: random_date_def run_simps)
  ultimately show ?thesis
    by (auto simp: random_weekday_date_def midnight_def day_def)
qed

end
